theory Spec2Isabelle
  imports Main
begin

section \<open>Python values and exceptions\<close>

text \<open>
  The adapter of \<^verbatim>\<open>src/gepetto/models/litellm.py\<close> moves Python values between
  three collaborators: an HTTP client, an OpenAI-compatible SDK and the host's UI gate.
  Values are a datatype; a \<^verbatim>\<open>str\<close> and an instance of a proper subclass of
  \<^verbatim>\<open>str\<close> (class name, text) are different constructors, because the source
  tests \<^verbatim>\<open>type(query) is str\<close>. A dict is an association list read with
  \<open>map_of\<close>.
\<close>

datatype pyval =
    PyNone
  | PyBool bool
  | PyInt int
  | PyStr string
  | PyStrSub string string
  | PyList "pyval list"
  | PyDict "(string \<times> pyval) list"

datatype pytype = T_NoneType | T_bool | T_int | T_str | T_str_subclass string | T_list | T_dict

fun py_type :: "pyval \<Rightarrow> pytype" where
  "py_type PyNone = T_NoneType"
| "py_type (PyBool b) = T_bool"
| "py_type (PyInt i) = T_int"
| "py_type (PyStr s) = T_str"
| "py_type (PyStrSub c s) = T_str_subclass c"
| "py_type (PyList xs) = T_list"
| "py_type (PyDict kv) = T_dict"

fun isinstance_str :: "pyval \<Rightarrow> bool" where
  "isinstance_str (PyStr s) = True"
| "isinstance_str (PyStrSub c s) = True"
| "isinstance_str v = False"

text \<open>
  Exception classes: the builtins the code can meet, the hierarchy of
  \<^verbatim>\<open>requests.exceptions\<close> and the hierarchy of the \<^verbatim>\<open>openai\<close> package.
  \<open>mro\<close> lists a class with all its base classes, so that an \<^verbatim>\<open>except C\<close> clause
  is the test \<open>isinstance e C\<close>.
\<close>

datatype exc_class =
    BaseException | Exception | KeyboardInterrupt | SystemExit
  | LookupError | IndexError | KeyError | AttributeError | TypeError | ValueError | OSError
  | RequestException | HTTPError | ConnectionError | Timeout | TooManyRedirects
  | InvalidURL | InvalidJSONError | JSONDecodeError
  | OpenAIError | APIError | APIResponseValidationError | APIStatusError
  | APIConnectionError | APITimeoutError
  | BadRequestError | AuthenticationError | PermissionDeniedError | NotFoundError
  | ConflictError | UnprocessableEntityError | RateLimitError | InternalServerError

definition request_bases :: "exc_class list" where
  "request_bases = [RequestException, OSError, Exception, BaseException]"

definition api_error_bases :: "exc_class list" where
  "api_error_bases = [APIError, OpenAIError, Exception, BaseException]"

fun mro :: "exc_class \<Rightarrow> exc_class list" where
  "mro BaseException = [BaseException]"
| "mro Exception = [Exception, BaseException]"
| "mro KeyboardInterrupt = [KeyboardInterrupt, BaseException]"
| "mro SystemExit = [SystemExit, BaseException]"
| "mro LookupError = [LookupError, Exception, BaseException]"
| "mro IndexError = [IndexError, LookupError, Exception, BaseException]"
| "mro KeyError = [KeyError, LookupError, Exception, BaseException]"
| "mro AttributeError = [AttributeError, Exception, BaseException]"
| "mro TypeError = [TypeError, Exception, BaseException]"
| "mro ValueError = [ValueError, Exception, BaseException]"
| "mro OSError = [OSError, Exception, BaseException]"
| "mro RequestException = request_bases"
| "mro HTTPError = HTTPError # request_bases"
| "mro ConnectionError = ConnectionError # request_bases"
| "mro Timeout = Timeout # request_bases"
| "mro TooManyRedirects = TooManyRedirects # request_bases"
| "mro InvalidURL = [InvalidURL, RequestException, OSError, ValueError, Exception, BaseException]"
| "mro InvalidJSONError = InvalidJSONError # request_bases"
| "mro JSONDecodeError =
     [JSONDecodeError, InvalidJSONError, RequestException, OSError, ValueError, Exception,
      BaseException]"
| "mro OpenAIError = [OpenAIError, Exception, BaseException]"
| "mro APIError = api_error_bases"
| "mro APIResponseValidationError = APIResponseValidationError # api_error_bases"
| "mro APIStatusError = APIStatusError # api_error_bases"
| "mro APIConnectionError = APIConnectionError # api_error_bases"
| "mro APITimeoutError = APITimeoutError # APIConnectionError # api_error_bases"
| "mro BadRequestError = BadRequestError # APIStatusError # api_error_bases"
| "mro AuthenticationError = AuthenticationError # APIStatusError # api_error_bases"
| "mro PermissionDeniedError = PermissionDeniedError # APIStatusError # api_error_bases"
| "mro NotFoundError = NotFoundError # APIStatusError # api_error_bases"
| "mro ConflictError = ConflictError # APIStatusError # api_error_bases"
| "mro UnprocessableEntityError = UnprocessableEntityError # APIStatusError # api_error_bases"
| "mro RateLimitError = RateLimitError # APIStatusError # api_error_bases"
| "mro InternalServerError = InternalServerError # APIStatusError # api_error_bases"

text \<open>
  An exception object: its class and \<^verbatim>\<open>str(e)\<close>. The texts of exceptions raised by
  the interpreter and the libraries are abbreviated; no statement below depends on them
  beyond being the text that is printed.
\<close>

datatype exn = Exn (exc_cls: exc_class) (exc_str: string)

definition isinstance :: "exn \<Rightarrow> exc_class \<Rightarrow> bool" where
  "isinstance e c = (c \<in> set (mro (exc_cls e)))"

text \<open>Sequencing of fallible steps: the first raise ends the computation.\<close>

definition and_then :: "exn + 'a \<Rightarrow> ('a \<Rightarrow> exn + 'b) \<Rightarrow> exn + 'b" where
  "and_then r f = (case r of Inl e \<Rightarrow> Inl e | Inr v \<Rightarrow> f v)"

section \<open>Model discovery\<close>

text \<open>
  \<^verbatim>\<open>LiteLLM.supported_models\<close> reads the configured server, issues
  \<^verbatim>\<open>requests.get(f"{link}/models")\<close>, calls \<^verbatim>\<open>raise_for_status()\<close> and filters
  the \<^verbatim>\<open>data\<close> array of the JSON body. The configuration lookup and the HTTP client
  are outside the file: the environment gives the configured value
  (\<open>None\<close> for an unset key), the outcome of the GET for a URL, and for a response its
  status code and what \<^verbatim>\<open>response.json()\<close> does. \<^verbatim>\<open>raise_for_status\<close> raises
  \<^verbatim>\<open>HTTPError\<close> on a 4xx or 5xx status, as the requests library does.

  A decoded JSON body is a value of \<open>jsonval\<close>: \<^verbatim>\<open>None\<close>, a bool, an int, a float
  (mantissa and decimal exponent), a \<^verbatim>\<open>str\<close>, a list or a dict.
\<close>

datatype jsonval =
    JNull
  | JBool bool
  | JInt int
  | JFloat int int
  | JStr string
  | JArr "jsonval list"
  | JObj "(string \<times> jsonval) list"

record http_response =
  status_code :: nat
  json :: "exn + jsonval"

record discovery_env =
  get_server :: "string option"
  requests_get :: "string \<Rightarrow> exn + http_response"

definition raise_for_status :: "http_response \<Rightarrow> exn + unit" where
  "raise_for_status r =
     (if 400 \<le> status_code r \<and> status_code r < 600
      then Inl (Exn HTTPError ''Error for url'')
      else Inr ())"

text \<open>\<^verbatim>\<open>d.get(key, default)\<close>: only a dict has the method.\<close>

fun py_get :: "jsonval \<Rightarrow> string \<Rightarrow> jsonval \<Rightarrow> exn + jsonval" where
  "py_get (JObj kv) k d = Inr (case map_of kv k of None \<Rightarrow> d | Some v \<Rightarrow> v)"
| "py_get v k d = Inl (Exn AttributeError ''object has no attribute get'')"

text \<open>\<^verbatim>\<open>d[key]\<close> with a string key.\<close>

fun py_getitem :: "jsonval \<Rightarrow> string \<Rightarrow> exn + jsonval" where
  "py_getitem (JObj kv) k =
     (case map_of kv k of
        None \<Rightarrow> Inl (Exn KeyError ([CHR 0x27] @ k @ [CHR 0x27]))
      | Some v \<Rightarrow> Inr v)"
| "py_getitem v k = Inl (Exn TypeError ''indices must be integers or slices, not str'')"

text \<open>Iteration: a list gives its elements, a dict its keys, a string its characters.\<close>

fun py_iter :: "jsonval \<Rightarrow> exn + jsonval list" where
  "py_iter (JArr xs) = Inr xs"
| "py_iter (JObj kv) = Inr (map (\<lambda>p. JStr (fst p)) kv)"
| "py_iter (JStr s) = Inr (map (\<lambda>c. JStr [c]) s)"
| "py_iter v = Inl (Exn TypeError ''object is not iterable'')"

text \<open>
  The comprehension
  \<^verbatim>\<open>[model["id"] for model in ... if model.get("object") == "model"]\<close>:
  for each entry the condition, then the element; the first raise ends it. A decoded JSON
  value equals \<^verbatim>\<open>"model"\<close> only if it is that string.
\<close>

fun model_ids :: "jsonval list \<Rightarrow> exn + jsonval list" where
  "model_ids [] = Inr []"
| "model_ids (m # ms) =
     and_then (py_get m ''object'' JNull) (\<lambda>obj.
       if obj = JStr ''model''
       then and_then (py_getitem m ''id'') (\<lambda>i.
              and_then (model_ids ms) (\<lambda>rest. Inr (i # rest)))
       else model_ids ms)"

definition supported_models_body :: "discovery_env \<Rightarrow> exn + jsonval list" where
  "supported_models_body env =
     (case get_server env of
        None \<Rightarrow> Inr []
      | Some link \<Rightarrow>
          if link = [] then Inr []
          else and_then (requests_get env (link @ ''/models'')) (\<lambda>response.
               and_then (raise_for_status response) (\<lambda>_.
               and_then (json response) (\<lambda>body.
               and_then (py_get body ''data'' (JArr [])) (\<lambda>d.
               and_then (py_iter d) model_ids)))))"

text \<open>The \<^verbatim>\<open>except requests.RequestException: return []\<close> clause around the body.\<close>

definition supported_models :: "discovery_env \<Rightarrow> exn + jsonval list" where
  "supported_models env =
     (case supported_models_body env of
        Inl e \<Rightarrow> if isinstance e RequestException then Inr [] else Inl e
      | Inr ids \<Rightarrow> Inr ids)"

definition is_configured_properly :: "discovery_env \<Rightarrow> exn + bool" where
  "is_configured_properly env =
     and_then (supported_models env) (\<lambda>ms. Inr (length ms > 0))"

text \<open>
  The discovery result in the spec's words: the \<^verbatim>\<open>id\<close> fields of the entries of the
  \<^verbatim>\<open>data\<close> array whose \<^verbatim>\<open>object\<close> field equals \<^verbatim>\<open>"model"\<close>, in order.
  \<open>entry_ok\<close> says that an entry has the shape the endpoint promises: a JSON object,
  with an \<^verbatim>\<open>id\<close> if it is a model.
\<close>

fun field :: "jsonval \<Rightarrow> string \<Rightarrow> jsonval option" where
  "field (JObj kv) k = map_of kv k"
| "field v k = None"

definition spec_model_ids :: "jsonval list \<Rightarrow> jsonval list" where
  "spec_model_ids entries =
     List.map_filter (\<lambda>m. field m ''id'')
       (filter (\<lambda>m. field m ''object'' = Some (JStr ''model'')) entries)"

fun entry_ok :: "jsonval \<Rightarrow> bool" where
  "entry_ok (JObj kv) =
     (if map_of kv ''object'' = Some (JStr ''model'') then map_of kv ''id'' \<noteq> None else True)"
| "entry_ok v = False"

text \<open>The cases of the claim about failing discovery: no endpoint, a failing GET, an error status.\<close>

definition endpoint_unset_or_failing :: "discovery_env \<Rightarrow> bool" where
  "endpoint_unset_or_failing env =
     (case get_server env of
        None \<Rightarrow> True
      | Some link \<Rightarrow>
          link = [] \<or>
          (case requests_get env (link @ ''/models'') of
             Inl e \<Rightarrow> isinstance e RequestException
           | Inr r \<Rightarrow> 400 \<le> status_code r \<and> status_code r < 600))"

text \<open>An HTTP endpoint that answers every URL the same way.\<close>

definition serving :: "exn + http_response \<Rightarrow> string \<Rightarrow> exn + http_response" where
  "serving r = (\<lambda>url. r)"

section \<open>Messages\<close>

text \<open>
  Modelled from the spec: \<^verbatim>\<open>gepetto.config._\<close>, the internationalized string lookup,
  is not in the source file. The spec quotes the printed messages untranslated, so the
  lookup is taken with no catalogue installed, where it returns the message it is given.
\<close>

definition translate :: "string \<Rightarrow> string" where
  "translate s = s"

text \<open>
  \<^verbatim>\<open>template.format(**kw)\<close> for named replacement fields, the only kind the
  templates of the file use: \<^verbatim>\<open>{{\<close> and \<^verbatim>\<open>}}\<close> are literal braces,
  \<^verbatim>\<open>{name}\<close> is replaced by the keyword argument of that name (\<^verbatim>\<open>KeyError\<close> if
  there is none, \<^verbatim>\<open>IndexError\<close> for the empty, positional field) and an
  unbalanced brace raises \<^verbatim>\<open>ValueError\<close>. The second argument is the field name
  read so far, \<open>None\<close> outside a field.
\<close>

fun format_scan :: "(string \<times> string) list \<Rightarrow> string option \<Rightarrow> string \<Rightarrow> exn + string" where
  "format_scan kw None [] = Inr []"
| "format_scan kw (Some f) [] = Inl (Exn ValueError ''expected } before end of string'')"
| "format_scan kw (Some f) (c # cs) =
     (if c = CHR ''}'' then
        (if f = [] then Inl (Exn IndexError ''Replacement index 0 out of range'')
         else case map_of kw f of
                None \<Rightarrow> Inl (Exn KeyError ([CHR 0x27] @ f @ [CHR 0x27]))
              | Some v \<Rightarrow> and_then (format_scan kw None cs) (\<lambda>rest. Inr (v @ rest)))
      else format_scan kw (Some (f @ [c])) cs)"
| "format_scan kw None (c # cs) =
     (if c = CHR ''{'' then
        (case cs of
           [] \<Rightarrow> Inl (Exn ValueError ''Single { encountered in format string'')
         | d # ds \<Rightarrow>
             if d = CHR ''{''
             then and_then (format_scan kw None ds) (\<lambda>rest. Inr (CHR ''{'' # rest))
             else format_scan kw (Some []) cs)
      else if c = CHR ''}'' then
        (case cs of
           [] \<Rightarrow> Inl (Exn ValueError ''Single } encountered in format string'')
         | d # ds \<Rightarrow>
             if d = CHR ''}''
             then and_then (format_scan kw None ds) (\<lambda>rest. Inr (CHR ''}'' # rest))
             else Inl (Exn ValueError ''Single } encountered in format string''))
      else and_then (format_scan kw None cs) (\<lambda>rest. Inr (c # rest)))"

definition py_format :: "string \<Rightarrow> (string \<times> string) list \<Rightarrow> exn + string" where
  "py_format template kw = format_scan kw None template"

definition TOO_BIG :: string where
  "TOO_BIG =
     ''Unfortunately, this function is too big to be analyzed with the model'' @ [CHR 0x27] @
     ''s current API limits.''"

definition GENERAL_EXCEPTION :: string where
  "GENERAL_EXCEPTION = ''General exception encountered while running the query: {error}''"

definition COULD_NOT_COMPLETE :: string where
  "COULD_NOT_COMPLETE = ''{model} could not complete the request: {error}''"

section \<open>The context-length pattern\<close>

text \<open>
  \<^verbatim>\<open>re.search(r'maximum context length is \d+ tokens, however you requested \d+ tokens', str(e))\<close>.
  The pattern is a sequence of literal pieces and \<^verbatim>\<open>\d+\<close> items. \<open>match_here\<close>
  matches the pattern at the start of a string, trying every length for a run of digits;
  \<open>re_search\<close> tries every start position. Only whether a match exists is used.
\<close>

datatype re_item = Lit string | Digits

definition is_digit :: "char \<Rightarrow> bool" where
  "is_digit c = (c \<in> set ''0123456789'')"

fun match_here :: "re_item list \<Rightarrow> string \<Rightarrow> bool" where
  "match_here [] s = True"
| "match_here (Lit l # r) s = (take (length l) s = l \<and> match_here r (drop (length l) s))"
| "match_here (Digits # r) s =
     list_ex (\<lambda>k. match_here r (drop k s)) [1 ..< Suc (length (takeWhile is_digit s))]"

fun re_search :: "re_item list \<Rightarrow> string \<Rightarrow> bool" where
  "re_search p [] = match_here p []"
| "re_search p (c # cs) = (match_here p (c # cs) \<or> re_search p cs)"

definition context_length_pattern :: "re_item list" where
  "context_length_pattern =
     [Lit ''maximum context length is '', Digits,
      Lit '' tokens, however you requested '', Digits, Lit '' tokens'']"

text \<open>
  The pattern in the spec's words: the text
  \<^verbatim>\<open>maximum context length is N tokens, however you requested M tokens\<close>, with \<open>N\<close>
  and \<open>M\<close> numbers (non-empty runs of decimal digits).
\<close>

definition context_length_text :: "string \<Rightarrow> string \<Rightarrow> string" where
  "context_length_text n m =
     ''maximum context length is '' @ n @ '' tokens, however you requested '' @ m @ '' tokens''"

definition is_number :: "string \<Rightarrow> bool" where
  "is_number n = (n \<noteq> [] \<and> list_all is_digit n)"

section \<open>Request dispatch\<close>

text \<open>
  The chat-completion request the adapter hands to
  \<^verbatim>\<open>self.client.chat.completions.create\<close>, and what the SDK gives back: a raise, a
  completion (\<^verbatim>\<open>response.choices[0].message.content\<close>), or a stream of chunks
  (\<^verbatim>\<open>chunk.choices[0].delta\<close>, \<^verbatim>\<open>chunk.choices[0].finish_reason\<close>) that ends
  normally or with a raise during the iteration. A delta is an object given by its
  attributes, since the source asks \<^verbatim>\<open>hasattr(delta, "content")\<close>.
\<close>

record request =
  req_model :: string
  req_messages :: pyval
  req_stream :: bool
  req_options :: "(string \<times> pyval) list"

record message =
  content :: pyval

record choice =
  message :: message

record chunk_choice =
  delta :: "(string \<times> pyval) list"
  finish_reason :: pyval

record chunk =
  choices :: "chunk_choice list"

datatype response =
    ChatCompletion "choice list"
  | Stream "chunk list" "exn option"

type_synonym sdk = "request \<Rightarrow> exn + response"

text \<open>
  What the adapter does to the outside: the SDK call with its request, the callback handed
  to the host's gate (\<^verbatim>\<open>ida_kernwin.execute_sync(functools.partial(cb, response=...),
  ida_kernwin.MFF_WRITE)\<close>, with the keyword arguments of the partial and the flag), the
  callback called directly with its positional arguments, and a printed line.

  The callback is the caller's code. Handed to the gate it runs on the host's side; called
  directly it runs inside the \<^verbatim>\<open>try\<close> block, so it is given by what a direct call
  does with its two arguments: return (\<open>None\<close>) or raise.
\<close>

type_synonym callback = "pyval \<Rightarrow> pyval \<Rightarrow> exn option"

datatype mff = MFF_FAST | MFF_READ | MFF_WRITE

datatype event =
    Create request
  | ExecuteSync "(string \<times> pyval) list" mff
  | Call "pyval list"
  | Print string

record outcome =
  trace :: "event list"
  raised :: "exn option"

text \<open>
  \<^verbatim>\<open>create(model=..., messages=..., stream=..., **additional_model_options)\<close>: an
  option named like one of the three explicit keywords is a \<^verbatim>\<open>TypeError\<close> of the
  call itself.
\<close>

definition clashing :: "(string \<times> pyval) list \<Rightarrow> string list" where
  "clashing opts =
     filter (\<lambda>k. k \<in> set [''model'', ''messages'', ''stream'']) (map fst opts)"

definition create_kwargs ::
  "string \<Rightarrow> pyval \<Rightarrow> bool \<Rightarrow> (string \<times> pyval) list \<Rightarrow> exn + request" where
  "create_kwargs model conversation stream opts =
     (case clashing opts of
        [] \<Rightarrow> Inr \<lparr>req_model = model, req_messages = conversation, req_stream = stream,
                  req_options = opts\<rparr>
      | k # _ \<Rightarrow> Inl (Exn TypeError (''got multiple values for keyword argument '' @ k)))"

text \<open>\<^verbatim>\<open>response.choices[0].message.content\<close>; a stream object has no \<^verbatim>\<open>choices\<close>.\<close>

fun first_content :: "response \<Rightarrow> exn + pyval" where
  "first_content (ChatCompletion []) = Inl (Exn IndexError ''list index out of range'')"
| "first_content (ChatCompletion (c # cs)) = Inr (content (message c))"
| "first_content (Stream chunks ending) =
     Inl (Exn AttributeError ''Stream object has no attribute choices'')"

text \<open>
  The body of \<^verbatim>\<open>for chunk in response\<close>: the first choice's delta and finish reason,
  the content attribute if the delta has one and the empty string otherwise, then
  \<^verbatim>\<open>cb(content, finished)\<close>. A raise, by the indexing or by the callback, ends the
  loop with the events so far; when the chunks are used up the iteration ends normally or
  with the raise of the stream.
\<close>

definition chunk_content :: "chunk_choice \<Rightarrow> pyval" where
  "chunk_content ch = (case map_of (delta ch) ''content'' of None \<Rightarrow> PyStr [] | Some v \<Rightarrow> v)"

fun for_chunks :: "callback \<Rightarrow> chunk list \<Rightarrow> exn option \<Rightarrow> event list \<times> exn option" where
  "for_chunks cb [] ending = ([], ending)"
| "for_chunks cb (c # cs) ending =
     (case choices c of
        [] \<Rightarrow> ([], Some (Exn IndexError ''list index out of range''))
      | ch # _ \<Rightarrow>
          (case cb (chunk_content ch) (finish_reason ch) of
             Some e \<Rightarrow> ([Call [chunk_content ch, finish_reason ch]], Some e)
           | None \<Rightarrow>
               (case for_chunks cb cs ending of
                  (evs, r) \<Rightarrow> (Call [chunk_content ch, finish_reason ch] # evs, r))))"

text \<open>Iterating a completion object does not give chunks: the first access fails.\<close>

fun iterate_response :: "callback \<Rightarrow> response \<Rightarrow> event list \<times> exn option" where
  "iterate_response cb (Stream chunks ending) = for_chunks cb chunks ending"
| "iterate_response cb (ChatCompletion cs) =
     ([], Some (Exn AttributeError ''tuple object has no attribute choices''))"

text \<open>The \<^verbatim>\<open>try\<close> block of \<^verbatim>\<open>query_model\<close>: the events so far and the exception raised, if any.\<close>

definition conversation_of :: "pyval \<Rightarrow> pyval" where
  "conversation_of query =
     (if py_type query = T_str
      then PyList [PyDict [(''role'', PyStr ''user''), (''content'', query)]]
      else query)"

definition try_block ::
  "sdk \<Rightarrow> string \<Rightarrow> pyval \<Rightarrow> callback \<Rightarrow> bool \<Rightarrow> (string \<times> pyval) list \<Rightarrow>
     event list \<times> exn option" where
  "try_block client model query cb stream opts =
     (case create_kwargs model (conversation_of query) stream opts of
        Inl e \<Rightarrow> ([], Some e)
      | Inr req \<Rightarrow>
          (case client req of
             Inl e \<Rightarrow> ([Create req], Some e)
           | Inr response \<Rightarrow>
               if \<not> stream then
                 (case first_content response of
                    Inl e \<Rightarrow> ([Create req], Some e)
                  | Inr text \<Rightarrow> ([Create req, ExecuteSync [(''response'', text)] MFF_WRITE], None))
               else
                 (case iterate_response cb response of (evs, r) \<Rightarrow> (Create req # evs, r))))"

text \<open>
  The three \<^verbatim>\<open>except\<close> clauses, in the order of the source. A raise inside a
  handler (from \<^verbatim>\<open>format\<close>) would leave the function; an exception that is not an
  \<^verbatim>\<open>Exception\<close> is not caught.
\<close>

definition print_formatted :: "string \<Rightarrow> (string \<times> string) list \<Rightarrow> event list \<times> exn option" where
  "print_formatted template kw =
     (case py_format (translate template) kw of
        Inl e \<Rightarrow> ([], Some e)
      | Inr s \<Rightarrow> ([Print s], None))"

definition except_clauses :: "string \<Rightarrow> exn \<Rightarrow> event list \<times> exn option" where
  "except_clauses model e =
     (if isinstance e BadRequestError then
        (if re_search context_length_pattern (exc_str e)
         then ([Print (translate TOO_BIG)], None)
         else print_formatted GENERAL_EXCEPTION [(''error'', exc_str e)])
      else if isinstance e OpenAIError then
        print_formatted COULD_NOT_COMPLETE [(''model'', model), (''error'', exc_str e)]
      else if isinstance e Exception then
        print_formatted GENERAL_EXCEPTION [(''error'', exc_str e)]
      else ([], Some e))"

text \<open>\<^verbatim>\<open>if additional_model_options is None: additional_model_options = {}\<close>\<close>

definition default_options :: "(string \<times> pyval) list option \<Rightarrow> (string \<times> pyval) list" where
  "default_options additional_model_options =
     (case additional_model_options of None \<Rightarrow> [] | Some d \<Rightarrow> d)"

definition query_model ::
  "sdk \<Rightarrow> string \<Rightarrow> pyval \<Rightarrow> callback \<Rightarrow> bool \<Rightarrow> (string \<times> pyval) list option \<Rightarrow>
     outcome" where
  "query_model client model query cb stream additional_model_options =
     (case try_block client model query cb stream (default_options additional_model_options) of
        (evs, None) \<Rightarrow> \<lparr>trace = evs, raised = None\<rparr>
      | (evs, Some e) \<Rightarrow>
          (case except_clauses model e of
             (evs', r) \<Rightarrow> \<lparr>trace = evs @ evs', raised = r\<rparr>))"

text \<open>The callback invocations of a trace, marshaled or direct, in order.\<close>

fun is_callback :: "event \<Rightarrow> bool" where
  "is_callback (ExecuteSync kw flag) = True"
| "is_callback (Call args) = True"
| "is_callback ev = False"

definition callbacks :: "event list \<Rightarrow> event list" where
  "callbacks evs = filter is_callback evs"

fun is_print :: "event \<Rightarrow> bool" where
  "is_print (Print s) = True"
| "is_print ev = False"

definition printed :: "event list \<Rightarrow> event list" where
  "printed evs = filter is_print evs"

text \<open>The requests a trace sent to the SDK.\<close>

fun outbound :: "event list \<Rightarrow> request list" where
  "outbound [] = []"
| "outbound (Create req # evs) = req # outbound evs"
| "outbound (ev # evs) = outbound evs"

text \<open>An SDK that answers every request the same way.\<close>

definition answering :: "exn + response \<Rightarrow> sdk" where
  "answering r = (\<lambda>req. r)"

text \<open>A callback that returns on every call, and one that raises on every call.\<close>

definition returning :: callback where
  "returning = (\<lambda>content finished. None)"

definition raising :: "exn \<Rightarrow> callback" where
  "raising e = (\<lambda>content finished. Some e)"

text \<open>
  The delta object the SDK builds for a chunk: its \<^verbatim>\<open>ChoiceDelta\<close> class declares
  \<^verbatim>\<open>content: Optional[str] = None\<close>, so the attribute is always there, with the text
  of the chunk's content field, or \<^verbatim>\<open>None\<close> when the chunk carries no content field.
\<close>

definition choice_delta :: "string option \<Rightarrow> (string \<times> pyval) list" where
  "choice_delta content_field =
     [(''content'', case content_field of None \<Rightarrow> PyNone | Some text \<Rightarrow> PyStr text)]"

text \<open>
  What a chunk asks of its callback event: a direct call with two arguments, the second the
  first choice's finish reason and, when the delta carries a content text, the first that
  text.
\<close>

fun delivered :: "chunk \<Rightarrow> event \<Rightarrow> bool" where
  "delivered c (Call [a, f]) =
     (case choices c of
        [] \<Rightarrow> False
      | ch # _ \<Rightarrow>
          f = finish_reason ch \<and>
          (case map_of (delta ch) ''content'' of Some (PyStr text) \<Rightarrow> a = PyStr text | _ \<Rightarrow> True))"
| "delivered c ev = False"

text \<open>
  The line printed for a failure: the advisory for a bad request whose text matches the
  context-length pattern, the general-exception message for any other bad request, the
  could-not-complete message for any other API error, the general-exception message for
  anything else.
\<close>

definition failure_message :: "string \<Rightarrow> exn \<Rightarrow> string" where
  "failure_message model e =
     (if isinstance e BadRequestError then
        (if re_search context_length_pattern (exc_str e) then TOO_BIG
         else ''General exception encountered while running the query: '' @ exc_str e)
      else if isinstance e OpenAIError then
        model @ '' could not complete the request: '' @ exc_str e
      else ''General exception encountered while running the query: '' @ exc_str e)"

section \<open>Discovery: what is listed and when nothing is\<close>

lemma model_ids_ok:
  "list_all entry_ok es \<Longrightarrow> model_ids es = Inr (spec_model_ids es)"
proof (induction es)
  case Nil
  show ?case by (simp add: spec_model_ids_def List.map_filter_simps)
next
  case (Cons m ms)
  from Cons.prems have ok: "entry_ok m" and rest: "list_all entry_ok ms" by simp_all
  from Cons.IH [OF rest] have ih: "model_ids ms = Inr (spec_model_ids ms)" .
  from ok obtain kv where m: "m = JObj kv" by (cases m) simp_all
  show ?case
  proof (cases "map_of kv ''object'' = Some (JStr ''model'')")
    case True
    with ok m obtain i where "map_of kv ''id'' = Some i" by auto
    with True m ih show ?thesis
      by (simp add: and_then_def spec_model_ids_def List.map_filter_simps)
  next
    case False
    with m ih show ?thesis
      by (auto simp: and_then_def spec_model_ids_def List.map_filter_simps split: option.splits)
  qed
qed

lemma model_ids_bad:
  "\<not> list_all entry_ok es \<Longrightarrow> \<exists>e. model_ids es = Inl e \<and> \<not> isinstance e RequestException"
proof (induction es)
  case Nil
  then show ?case by simp
next
  case (Cons m ms)
  show ?case
  proof (cases "entry_ok m")
    case False
    then show ?thesis
      by (cases m) (auto simp: and_then_def isinstance_def split: option.splits if_splits)
  next
    case True
    with Cons.prems have "\<not> list_all entry_ok ms" by simp
    from Cons.IH [OF this] obtain e
      where e: "model_ids ms = Inl e" "\<not> isinstance e RequestException"
      by blast
    from True obtain kv where m: "m = JObj kv" by (cases m) simp_all
    from True m e show ?thesis
      by (auto simp: and_then_def split: option.splits)
  qed
qed

lemma body_reaches_comprehension:
  assumes "get_server env = Some link" "link \<noteq> []"
    and "requests_get env (link @ ''/models'') = Inr response"
    and "raise_for_status response = Inr ()"
    and "json response = Inr (JObj body)"
    and "map_of body ''data'' = Some (JArr entries)"
  shows "supported_models_body env = model_ids entries"
  using assms by (simp add: supported_models_body_def and_then_def)

text \<open>
  C6. When an endpoint is configured, the GET returns, the status is not an error and the
  decoded body is an object with a \<^verbatim>\<open>data\<close> array, \<open>supported_models\<close> returns a
  list exactly when every entry has the promised shape, and the list is then the
  \<^verbatim>\<open>id\<close> fields of the entries whose \<^verbatim>\<open>object\<close> field equals
  \<^verbatim>\<open>"model"\<close>, in order; every other entry is left out.
\<close>

theorem supported_models_lists_model_ids:
  assumes "get_server env = Some link" "link \<noteq> []"
    and "requests_get env (link @ ''/models'') = Inr response"
    and "raise_for_status response = Inr ()"
    and "json response = Inr (JObj body)"
    and "map_of body ''data'' = Some (JArr entries)"
  shows "supported_models env = Inr ids \<longleftrightarrow>
           list_all entry_ok entries \<and> ids = spec_model_ids entries"
proof (cases "list_all entry_ok entries")
  case True
  with body_reaches_comprehension [OF assms] model_ids_ok [OF True] show ?thesis
    by (auto simp: supported_models_def)
next
  case False
  from model_ids_bad [OF False] body_reaches_comprehension [OF assms] False show ?thesis
    by (auto simp: supported_models_def)
qed

theorem supported_models_lists_model_ids_witness:
  "supported_models
     \<lparr>get_server = Some ''http://localhost:4000'',
      requests_get = serving (Inr \<lparr>status_code = 200, json = Inr (JObj [(''data'', JArr
        [JObj [(''id'', JStr ''gpt-x''), (''object'', JStr ''model'')],
         JObj [(''id'', JStr ''ignore-me''), (''object'', JStr ''other'')]])])\<rparr>)\<rparr>
   = Inr [JStr ''gpt-x'']"
proof -
  let ?entries = "[JObj [(''id'', JStr ''gpt-x''), (''object'', JStr ''model'')],
                   JObj [(''id'', JStr ''ignore-me''), (''object'', JStr ''other'')]]"
  let ?body = "[(''data'', JArr ?entries)]"
  let ?response = "\<lparr>status_code = 200, json = Inr (JObj ?body)\<rparr>"
  let ?env = "\<lparr>get_server = Some ''http://localhost:4000'',
               requests_get = serving (Inr ?response)\<rparr>"
  have h1: "get_server ?env = Some ''http://localhost:4000''" by simp
  have h2: "''http://localhost:4000'' \<noteq> []" by simp
  have h3: "requests_get ?env (''http://localhost:4000'' @ ''/models'') = Inr ?response"
    by (simp add: serving_def)
  have h4: "raise_for_status ?response = Inr ()" by (simp add: raise_for_status_def)
  have h5: "json ?response = Inr (JObj ?body)" by simp
  have h6: "map_of ?body ''data'' = Some (JArr ?entries)" by simp
  have ok: "list_all entry_ok ?entries" by simp
  have ids: "[JStr ''gpt-x''] = spec_model_ids ?entries"
    by (simp add: spec_model_ids_def List.map_filter_simps)
  from supported_models_lists_model_ids [OF h1 h2 h3 h4 h5 h6, of "[JStr ''gpt-x'']"] ok ids
  show ?thesis by blast
qed

lemma failing_discovery_is_empty:
  assumes "endpoint_unset_or_failing env"
  shows "supported_models env = Inr []"
proof (cases "get_server env")
  case None
  then show ?thesis by (simp add: supported_models_def supported_models_body_def)
next
  case (Some link)
  show ?thesis
  proof (cases "link = []")
    case True
    with Some show ?thesis by (simp add: supported_models_def supported_models_body_def)
  next
    case False
    show ?thesis
    proof (cases "requests_get env (link @ ''/models'')")
      case (Inl e)
      with assms Some False have "isinstance e RequestException"
        by (simp add: endpoint_unset_or_failing_def)
      with Some False Inl show ?thesis
        by (simp add: supported_models_def supported_models_body_def and_then_def)
    next
      case (Inr r)
      with assms Some False have "400 \<le> status_code r \<and> status_code r < 600"
        by (simp add: endpoint_unset_or_failing_def)
      with Some False Inr show ?thesis
        by (simp add: supported_models_def supported_models_body_def and_then_def
            raise_for_status_def isinstance_def request_bases_def)
    qed
  qed
qed

text \<open>
  C7. When no endpoint is configured (the setting is unset or empty), or the GET raises a
  \<^verbatim>\<open>requests.RequestException\<close>, or the response has an error status,
  \<open>supported_models\<close> returns the empty list without raising and
  \<open>is_configured_properly\<close> returns false. In every case \<open>is_configured_properly\<close>
  returns false exactly when discovery returns the empty list and true exactly when
  discovery returns at least one model.
\<close>

theorem failing_discovery_not_configured:
  "(endpoint_unset_or_failing env \<longrightarrow>
      supported_models env = Inr [] \<and> is_configured_properly env = Inr False) \<and>
   (is_configured_properly env = Inr False \<longleftrightarrow> supported_models env = Inr []) \<and>
   (is_configured_properly env = Inr True \<longleftrightarrow>
      (\<exists>m ms. supported_models env = Inr (m # ms)))"
proof (intro conjI impI)
  assume "endpoint_unset_or_failing env"
  from failing_discovery_is_empty [OF this]
  show "supported_models env = Inr []" .
  then show "is_configured_properly env = Inr False"
    by (simp add: is_configured_properly_def and_then_def)
next
  show "is_configured_properly env = Inr False \<longleftrightarrow> supported_models env = Inr []"
    by (cases "supported_models env") (auto simp: is_configured_properly_def and_then_def)
next
  show "is_configured_properly env = Inr True \<longleftrightarrow>
      (\<exists>m ms. supported_models env = Inr (m # ms))"
    by (cases "supported_models env")
      (auto simp: is_configured_properly_def and_then_def neq_Nil_conv)
qed

theorem failing_discovery_not_configured_witness:
  "endpoint_unset_or_failing
     \<lparr>get_server = None, requests_get = serving (Inl (Exn ConnectionError ''unreachable''))\<rparr> \<and>
   supported_models
     \<lparr>get_server = None, requests_get = serving (Inl (Exn ConnectionError ''unreachable''))\<rparr>
     = Inr [] \<and>
   is_configured_properly
     \<lparr>get_server = None, requests_get = serving (Inl (Exn ConnectionError ''unreachable''))\<rparr>
     = Inr False \<and>
   endpoint_unset_or_failing
     \<lparr>get_server = Some ''http://localhost:4000'',
      requests_get = serving (Inl (Exn ConnectionError ''unreachable''))\<rparr> \<and>
   supported_models
     \<lparr>get_server = Some ''http://localhost:4000'',
      requests_get = serving (Inl (Exn ConnectionError ''unreachable''))\<rparr> = Inr [] \<and>
   is_configured_properly
     \<lparr>get_server = Some ''http://localhost:4000'',
      requests_get = serving (Inl (Exn ConnectionError ''unreachable''))\<rparr> = Inr False \<and>
   endpoint_unset_or_failing
     \<lparr>get_server = Some ''http://localhost:4000'',
      requests_get = serving (Inr \<lparr>status_code = 503, json = Inr (JObj [(''data'', JArr
        [JObj [(''id'', JStr ''gpt-x''), (''object'', JStr ''model'')]])])\<rparr>)\<rparr> \<and>
   supported_models
     \<lparr>get_server = Some ''http://localhost:4000'',
      requests_get = serving (Inr \<lparr>status_code = 503, json = Inr (JObj [(''data'', JArr
        [JObj [(''id'', JStr ''gpt-x''), (''object'', JStr ''model'')]])])\<rparr>)\<rparr> = Inr [] \<and>
   is_configured_properly
     \<lparr>get_server = Some ''http://localhost:4000'',
      requests_get = serving (Inr \<lparr>status_code = 503, json = Inr (JObj [(''data'', JArr
        [JObj [(''id'', JStr ''gpt-x''), (''object'', JStr ''model'')]])])\<rparr>)\<rparr> = Inr False"
proof -
  let ?down = "serving (Inl (Exn ConnectionError ''unreachable''))"
  let ?busy = "serving (Inr \<lparr>status_code = 503, json = Inr (JObj [(''data'', JArr
        [JObj [(''id'', JStr ''gpt-x''), (''object'', JStr ''model'')]])])\<rparr>)"
  have a: "endpoint_unset_or_failing \<lparr>get_server = None, requests_get = ?down\<rparr>"
    by (simp add: endpoint_unset_or_failing_def)
  have b: "endpoint_unset_or_failing
             \<lparr>get_server = Some ''http://localhost:4000'', requests_get = ?down\<rparr>"
    by (simp add: endpoint_unset_or_failing_def serving_def isinstance_def request_bases_def)
  have c: "endpoint_unset_or_failing
             \<lparr>get_server = Some ''http://localhost:4000'', requests_get = ?busy\<rparr>"
    by (simp add: endpoint_unset_or_failing_def serving_def)
  from a b c
    failing_discovery_not_configured [of "\<lparr>get_server = None, requests_get = ?down\<rparr>"]
    failing_discovery_not_configured
      [of "\<lparr>get_server = Some ''http://localhost:4000'', requests_get = ?down\<rparr>"]
    failing_discovery_not_configured
      [of "\<lparr>get_server = Some ''http://localhost:4000'', requests_get = ?busy\<rparr>"]
  show ?thesis by blast
qed

section \<open>Dispatch: the handlers and the shape of a run\<close>

lemma format_could_not_complete:
  "py_format (translate COULD_NOT_COMPLETE) [(''model'', m), (''error'', e)] =
     Inr (m @ '' could not complete the request: '' @ e)"
  by (simp add: py_format_def translate_def COULD_NOT_COMPLETE_def and_then_def)

lemma format_general_exception:
  "py_format (translate GENERAL_EXCEPTION) [(''error'', e)] =
     Inr (''General exception encountered while running the query: '' @ e)"
  by (simp add: py_format_def translate_def GENERAL_EXCEPTION_def and_then_def)

lemma openai_error_is_exception: "isinstance e OpenAIError \<Longrightarrow> isinstance e Exception"
  by (cases e; cases "exc_cls e") (auto simp: isinstance_def api_error_bases_def request_bases_def)

lemma bad_request_is_openai_error: "isinstance e BadRequestError \<Longrightarrow> isinstance e OpenAIError"
  by (cases e; cases "exc_cls e") (auto simp: isinstance_def api_error_bases_def request_bases_def)

lemma except_bad_request_too_big:
  "isinstance e BadRequestError \<Longrightarrow> re_search context_length_pattern (exc_str e) \<Longrightarrow>
     except_clauses model e = ([Print TOO_BIG], None)"
  by (simp add: except_clauses_def translate_def)

lemma except_bad_request_other:
  "isinstance e BadRequestError \<Longrightarrow> \<not> re_search context_length_pattern (exc_str e) \<Longrightarrow>
     except_clauses model e =
       ([Print (''General exception encountered while running the query: '' @ exc_str e)], None)"
  by (simp add: except_clauses_def print_formatted_def format_general_exception)

lemma except_openai_error:
  "isinstance e OpenAIError \<Longrightarrow> \<not> isinstance e BadRequestError \<Longrightarrow>
     except_clauses model e =
       ([Print (model @ '' could not complete the request: '' @ exc_str e)], None)"
  by (simp add: except_clauses_def print_formatted_def format_could_not_complete)

lemma except_exception:
  "isinstance e Exception \<Longrightarrow> \<not> isinstance e OpenAIError \<Longrightarrow>
     except_clauses model e =
       ([Print (''General exception encountered while running the query: '' @ exc_str e)], None)"
  using bad_request_is_openai_error [of e]
  by (auto simp add: except_clauses_def print_formatted_def format_general_exception)

lemma except_not_caught:
  "\<not> isinstance e Exception \<Longrightarrow> except_clauses model e = ([], Some e)"
  using bad_request_is_openai_error [of e] openai_error_is_exception [of e]
  by (auto simp add: except_clauses_def)

lemma except_prints:
  "isinstance e Exception \<Longrightarrow> \<exists>s. except_clauses model e = ([Print s], None)"
  using except_bad_request_too_big [of e model] except_bad_request_other [of e model]
    except_openai_error [of e model] except_exception [of e model]
  by blast

lemma except_message:
  "isinstance e Exception \<Longrightarrow>
     except_clauses model e = ([Print (failure_message model e)], None)"
  using except_bad_request_too_big [of e model] except_bad_request_other [of e model]
    except_openai_error [of e model] except_exception [of e model]
  by (auto simp: failure_message_def)

lemma except_shape:
  "(\<exists>s. except_clauses model e = ([Print s], None)) \<or> except_clauses model e = ([], Some e)"
  using except_prints [of e model] except_not_caught [of e model] by blast

lemma query_model_unfold:
  "query_model client model query cb stream opts =
     (case try_block client model query cb stream (default_options opts) of
        (evs, r) \<Rightarrow>
          (case r of
             None \<Rightarrow> \<lparr>trace = evs, raised = None\<rparr>
           | Some e \<Rightarrow> \<lparr>trace = evs @ fst (except_clauses model e),
                        raised = snd (except_clauses model e)\<rparr>))"
  by (simp add: query_model_def split: prod.splits option.splits)

lemma raised_is_no_exception:
  assumes "raised (query_model client model query cb stream opts) = Some x"
  shows "\<not> isinstance x Exception"
proof -
  obtain evs r where tb:
    "try_block client model query cb stream (default_options opts) = (evs, r)"
    by (cases "try_block client model query cb stream (default_options opts)")
  show ?thesis
  proof (cases r)
    case None
    with tb assms show ?thesis by (simp add: query_model_unfold)
  next
    case (Some e)
    with tb assms have "snd (except_clauses model e) = Some x"
      by (simp add: query_model_unfold)
    with except_prints [of e model] except_not_caught [of e model] show ?thesis
      by (cases "isinstance e Exception") auto
  qed
qed

lemma query_model_sdk_raises:
  assumes "create_kwargs model (conversation_of query) stream (default_options opts) = Inr req"
    and "client req = Inl e"
  shows "query_model client model query cb stream opts =
           \<lparr>trace = Create req # fst (except_clauses model e),
            raised = snd (except_clauses model e)\<rparr>"
  using assms by (simp add: query_model_def try_block_def split: prod.splits)

lemma query_model_completion:
  assumes "create_kwargs model (conversation_of query) False (default_options opts) = Inr req"
    and "client req = Inr (ChatCompletion (c # cs))"
  shows "query_model client model query cb False opts =
           \<lparr>trace = [Create req, ExecuteSync [(''response'', content (message c))] MFF_WRITE],
            raised = None\<rparr>"
  using assms by (simp add: query_model_def try_block_def)

lemma for_chunks_calls:
  assumes "list_all (\<lambda>c. choices c \<noteq> []) chunks" and "\<And>a f. cb a f = None"
  shows "for_chunks cb chunks ending =
       (map (\<lambda>c. Call [chunk_content (hd (choices c)), finish_reason (hd (choices c))]) chunks,
        ending)"
  using assms(1) by (induction chunks) (auto simp: assms(2) split: list.splits)

lemma query_model_stream:
  assumes "create_kwargs model (conversation_of query) True (default_options opts) = Inr req"
    and "client req = Inr (Stream chunks ending)"
    and "list_all (\<lambda>c. choices c \<noteq> []) chunks"
    and "\<And>a f. cb a f = None"
  shows "query_model client model query cb True opts =
           (case ending of
              None \<Rightarrow> \<lparr>trace = Create req #
                  map (\<lambda>c. Call [chunk_content (hd (choices c)), finish_reason (hd (choices c))]) chunks,
                  raised = None\<rparr>
            | Some e \<Rightarrow> \<lparr>trace = (Create req #
                  map (\<lambda>c. Call [chunk_content (hd (choices c)), finish_reason (hd (choices c))]) chunks)
                    @ fst (except_clauses model e),
                  raised = snd (except_clauses model e)\<rparr>)"
  using assms(1,2) for_chunks_calls [OF assms(3), of cb ending] assms(4)
  by (simp add: query_model_def try_block_def split: prod.splits option.splits)

lemma callbacks_except: "callbacks (fst (except_clauses model e)) = []"
  using except_shape [of model e] by (auto simp: callbacks_def)

lemma outbound_except: "outbound (fst (except_clauses model e)) = []"
  using except_shape [of model e] by auto

lemma outbound_for_chunks: "outbound (fst (for_chunks cb chunks ending)) = []"
  by (induction chunks) (auto split: list.splits prod.splits option.splits)

lemma outbound_append: "outbound (xs @ ys) = outbound xs @ outbound ys"
  by (induction xs rule: outbound.induct) auto

lemma create_kwargs_ok:
  "clashing opts = [] \<Longrightarrow>
     create_kwargs model conversation stream opts =
       Inr \<lparr>req_model = model, req_messages = conversation, req_stream = stream,
            req_options = opts\<rparr>"
  by (simp add: create_kwargs_def)

lemma outbound_query_model:
  assumes "clashing (default_options opts) = []"
  shows "outbound (trace (query_model client model query cb stream opts)) =
     [\<lparr>req_model = model, req_messages = conversation_of query, req_stream = stream,
        req_options = default_options opts\<rparr>]"
proof -
  let ?req = "\<lparr>req_model = model, req_messages = conversation_of query, req_stream = stream,
        req_options = default_options opts\<rparr>"
  have ck: "create_kwargs model (conversation_of query) stream (default_options opts) = Inr ?req"
    using assms by (rule create_kwargs_ok)
  show ?thesis
  proof (cases "client ?req")
    case (Inl e)
    from ck Inl have "query_model client model query cb stream opts =
           \<lparr>trace = Create ?req # fst (except_clauses model e),
            raised = snd (except_clauses model e)\<rparr>"
      by (rule query_model_sdk_raises)
    then show ?thesis by (simp add: outbound_except)
  next
    case (Inr response)
    show ?thesis
    proof (cases response)
      case (ChatCompletion cs)
      with ck Inr show ?thesis
        by (cases cs; cases stream)
          (simp_all add: query_model_unfold try_block_def outbound_except outbound_append)
    next
      case (Stream chunks ending)
      with ck Inr outbound_for_chunks [of cb chunks ending] show ?thesis
        by (cases stream; cases "for_chunks cb chunks ending";
            cases "snd (for_chunks cb chunks ending)")
           (simp_all add: query_model_unfold try_block_def outbound_except outbound_append)
    qed
  qed
qed

text \<open>The source pattern finds every text of the spec's form.\<close>

lemma match_lit: "match_here r s \<Longrightarrow> match_here (Lit l # r) (l @ s)"
  by simp

lemma match_digits:
  assumes "is_number n" and "match_here r s"
  shows "match_here (Digits # r) (n @ s)"
proof -
  from assms(1) have ne: "n \<noteq> []" and ds: "\<forall>c\<in>set n. is_digit c"
    by (simp_all add: is_number_def list_all_iff)
  from ds have "takeWhile is_digit (n @ s) = n @ takeWhile is_digit s"
    by (simp add: takeWhile_append2)
  then have "length n \<le> length (takeWhile is_digit (n @ s))" by simp
  moreover from ne have "1 \<le> length n" by (cases n) simp_all
  ultimately have "length n \<in> set [1 ..< Suc (length (takeWhile is_digit (n @ s)))]"
    by (auto simp del: takeWhile_append)
  moreover from assms(2) have "match_here r (drop (length n) (n @ s))" by simp
  ultimately show ?thesis
    unfolding match_here.simps list_ex_iff by blast
qed

lemma search_after_prefix: "match_here p s \<Longrightarrow> re_search p (pre @ s)"
proof (induction pre)
  case Nil
  then show ?case by (cases s) simp_all
next
  case (Cons c pre)
  then show ?case by simp
qed

lemma context_length_found:
  assumes "is_number n" and "is_number m"
  shows "re_search context_length_pattern (pre @ context_length_text n m @ post)"
proof -
  have "match_here [] post" by simp
  then have "match_here [Lit '' tokens''] ('' tokens'' @ post)" by (rule match_lit)
  with assms(2) have "match_here [Digits, Lit '' tokens''] (m @ '' tokens'' @ post)"
    by (rule match_digits)
  then have "match_here [Lit '' tokens, however you requested '', Digits, Lit '' tokens'']
      ('' tokens, however you requested '' @ m @ '' tokens'' @ post)"
    by (rule match_lit)
  with assms(1) have "match_here [Digits, Lit '' tokens, however you requested '', Digits, Lit '' tokens'']
      (n @ '' tokens, however you requested '' @ m @ '' tokens'' @ post)"
    by (rule match_digits)
  then have "match_here context_length_pattern
      (''maximum context length is '' @ n @ '' tokens, however you requested '' @ m @ '' tokens'' @ post)"
    unfolding context_length_pattern_def by (rule match_lit)
  then have "re_search context_length_pattern (pre @
      (''maximum context length is '' @ n @ '' tokens, however you requested '' @ m @ '' tokens'' @ post))"
    by (rule search_after_prefix)
  then show ?thesis by (simp only: context_length_text_def append_assoc)
qed


section \<open>Dispatch: the claims\<close>

text \<open>
  C1, as amended. For every streaming dispatch whose SDK call returns a stream in which
  every received chunk carries at least one choice, and whose callback returns from every
  call, the callback is called directly exactly once per chunk, in the order of the chunks
  and however the stream ends: the second argument is the first choice's finish reason and,
  for a chunk whose delta carries a content text, the first argument is that text. No call
  goes through the host's gate.
\<close>

theorem streaming_callback_once_per_chunk:
  assumes "create_kwargs model (conversation_of query) True (default_options opts) = Inr req"
    and "client req = Inr (Stream chunks ending)"
    and "list_all (\<lambda>c. choices c \<noteq> []) chunks"
    and "\<And>a f. cb a f = None"
  shows "list_all2 delivered chunks
           (callbacks (trace (query_model client model query cb True opts)))"
proof -
  let ?call = "\<lambda>c. Call [chunk_content (hd (choices c)), finish_reason (hd (choices c))]"
  let ?calls = "map ?call chunks"
  have cb: "callbacks (Create req # ?calls) = ?calls"
    by (induction chunks) (simp_all add: callbacks_def)
  have app: "callbacks ((Create req # ?calls) @ fst (except_clauses model e)) = ?calls" for e
    using cb callbacks_except [of model e] by (simp add: callbacks_def)
  from assms have "query_model client model query cb True opts =
           (case ending of
              None \<Rightarrow> \<lparr>trace = Create req # ?calls, raised = None\<rparr>
            | Some e \<Rightarrow> \<lparr>trace = (Create req # ?calls) @ fst (except_clauses model e),
                  raised = snd (except_clauses model e)\<rparr>)"
    by (rule query_model_stream)
  with cb app have run: "callbacks (trace (query_model client model query cb True opts)) = ?calls"
    by (cases ending) simp_all
  have "delivered c (?call c)" if "choices c \<noteq> []" for c
    using that
    by (cases "choices c") (auto simp: chunk_content_def split: option.splits pyval.splits)
  with assms(3) have "list_all2 delivered chunks ?calls"
    by (simp add: list_all2_map2 list_all2_same list_all_iff)
  with run show ?thesis by simp
qed

theorem streaming_callback_once_per_chunk_witness:
  "list_all2 delivered
     [\<lparr>choices = [\<lparr>delta = choice_delta (Some ''Hel''), finish_reason = PyNone\<rparr>]\<rparr>,
      \<lparr>choices = [\<lparr>delta = choice_delta (Some ''lo''), finish_reason = PyNone\<rparr>]\<rparr>,
      \<lparr>choices = [\<lparr>delta = choice_delta None, finish_reason = PyStr ''stop''\<rparr>]\<rparr>]
     (callbacks (trace (query_model
        (answering (Inr (Stream
           [\<lparr>choices = [\<lparr>delta = choice_delta (Some ''Hel''), finish_reason = PyNone\<rparr>]\<rparr>,
            \<lparr>choices = [\<lparr>delta = choice_delta (Some ''lo''), finish_reason = PyNone\<rparr>]\<rparr>,
            \<lparr>choices = [\<lparr>delta = choice_delta None, finish_reason = PyStr ''stop''\<rparr>]\<rparr>]
           None)))
        ''gpt-x'' (PyStr ''hello'') returning True None)))"
proof -
  let ?chunks =
    "[\<lparr>choices = [\<lparr>delta = choice_delta (Some ''Hel''), finish_reason = PyNone\<rparr>]\<rparr>,
      \<lparr>choices = [\<lparr>delta = choice_delta (Some ''lo''), finish_reason = PyNone\<rparr>]\<rparr>,
      \<lparr>choices = [\<lparr>delta = choice_delta None, finish_reason = PyStr ''stop''\<rparr>]\<rparr>]"
  let ?req = "\<lparr>req_model = ''gpt-x'',
      req_messages = PyList [PyDict [(''role'', PyStr ''user''), (''content'', PyStr ''hello'')]],
      req_stream = True, req_options = []\<rparr>"
  have h1: "create_kwargs ''gpt-x'' (conversation_of (PyStr ''hello'')) True (default_options None)
              = Inr ?req"
    by (simp add: create_kwargs_def clashing_def conversation_of_def default_options_def)
  have h2: "answering (Inr (Stream ?chunks None)) ?req = Inr (Stream ?chunks None)"
    by (simp add: answering_def)
  have h3: "list_all (\<lambda>c. choices c \<noteq> []) ?chunks" by simp
  have h4: "returning a f = None" for a f by (simp add: returning_def)
  show ?thesis
    by (rule streaming_callback_once_per_chunk
          [where client = "answering (Inr (Stream ?chunks None))" and req = ?req
             and ending = None, OF h1 h2 h3 h4])
qed

text \<open>
  C1 as written fails in three ways. On a stream that holds a chunk without choices, three
  chunks are received, two of them with a delta, and the callback is not invoked at all. On
  a callback that raises, the loop ends after the first call and the other chunks are never
  delivered. On the final chunk of an ordinary stream, which carries a finish marker and no
  content field, the callback receives \<^verbatim>\<open>None\<close> and not the empty string.
\<close>

theorem streaming_empty_choices_counterexample:
  "callbacks (trace (query_model
      (answering (Inr (Stream
         [\<lparr>choices = []\<rparr>,
          \<lparr>choices = [\<lparr>delta = choice_delta (Some ''Hi''), finish_reason = PyNone\<rparr>]\<rparr>,
          \<lparr>choices = [\<lparr>delta = choice_delta None, finish_reason = PyStr ''stop''\<rparr>]\<rparr>] None)))
      ''gpt-x'' (PyStr ''hello'') returning True None)) = [] \<and>
   printed (trace (query_model
      (answering (Inr (Stream
         [\<lparr>choices = []\<rparr>,
          \<lparr>choices = [\<lparr>delta = choice_delta (Some ''Hi''), finish_reason = PyNone\<rparr>]\<rparr>,
          \<lparr>choices = [\<lparr>delta = choice_delta None, finish_reason = PyStr ''stop''\<rparr>]\<rparr>] None)))
      ''gpt-x'' (PyStr ''hello'') returning True None)) =
     [Print ''General exception encountered while running the query: list index out of range''] \<and>
   query_model
      (answering (Inr (Stream
         [\<lparr>choices = [\<lparr>delta = choice_delta (Some ''Hel''), finish_reason = PyNone\<rparr>]\<rparr>,
          \<lparr>choices = [\<lparr>delta = choice_delta (Some ''lo''), finish_reason = PyNone\<rparr>]\<rparr>,
          \<lparr>choices = [\<lparr>delta = choice_delta None, finish_reason = PyStr ''stop''\<rparr>]\<rparr>] None)))
      ''gpt-x'' (PyStr ''hello'') (raising (Exn ValueError ''widget is gone'')) True None =
     \<lparr>trace = [Create \<lparr>req_model = ''gpt-x'',
         req_messages = PyList [PyDict [(''role'', PyStr ''user''), (''content'', PyStr ''hello'')]],
         req_stream = True, req_options = []\<rparr>,
        Call [PyStr ''Hel'', PyNone],
        Print ''General exception encountered while running the query: widget is gone''],
      raised = None\<rparr> \<and>
   callbacks (trace (query_model
      (answering (Inr (Stream
         [\<lparr>choices = [\<lparr>delta = choice_delta (Some ''Hel''), finish_reason = PyNone\<rparr>]\<rparr>,
          \<lparr>choices = [\<lparr>delta = choice_delta (Some ''lo''), finish_reason = PyNone\<rparr>]\<rparr>,
          \<lparr>choices = [\<lparr>delta = choice_delta None, finish_reason = PyStr ''stop''\<rparr>]\<rparr>] None)))
      ''gpt-x'' (PyStr ''hello'') returning True None)) =
     [Call [PyStr ''Hel'', PyNone], Call [PyStr ''lo'', PyNone], Call [PyNone, PyStr ''stop'']]"
  by code_simp

text \<open>
  C2, as amended. For every dispatch in which the SDK call raises an
  \<^verbatim>\<open>openai.OpenAIError\<close> that is not a \<^verbatim>\<open>BadRequestError\<close>, the adapter prints
  the model name, \<^verbatim>\<open> could not complete the request: \<close> and the error text, and nothing
  else happens. A \<^verbatim>\<open>BadRequestError\<close> whose text does not match the context-length
  pattern is reported with the general-exception message and the error text instead.
\<close>

theorem api_error_message:
  assumes "create_kwargs model (conversation_of query) stream (default_options opts) = Inr req"
    and "client req = Inl e"
  shows "(isinstance e OpenAIError \<and> \<not> isinstance e BadRequestError \<longrightarrow>
            query_model client model query cb stream opts =
              \<lparr>trace = [Create req,
                  Print (model @ '' could not complete the request: '' @ exc_str e)],
               raised = None\<rparr>) \<and>
         (isinstance e BadRequestError \<and> \<not> re_search context_length_pattern (exc_str e) \<longrightarrow>
            query_model client model query cb stream opts =
              \<lparr>trace = [Create req,
                  Print (''General exception encountered while running the query: '' @
                         exc_str e)],
               raised = None\<rparr>)"
proof -
  from assms have run: "query_model client model query cb stream opts =
           \<lparr>trace = Create req # fst (except_clauses model e),
            raised = snd (except_clauses model e)\<rparr>"
    by (rule query_model_sdk_raises)
  show ?thesis
    using run except_openai_error [of e model] except_bad_request_other [of e model]
    by auto
qed

theorem api_error_message_witness:
  "query_model (answering (Inl (Exn RateLimitError ''Rate limit reached'')))
      ''gpt-x'' (PyStr ''hello'') returning False None =
     \<lparr>trace = [Create \<lparr>req_model = ''gpt-x'',
         req_messages = PyList [PyDict [(''role'', PyStr ''user''), (''content'', PyStr ''hello'')]],
         req_stream = False, req_options = []\<rparr>,
        Print ''gpt-x could not complete the request: Rate limit reached''],
      raised = None\<rparr> \<and>
   query_model (answering (Inl (Exn BadRequestError ''Invalid parameter'')))
      ''gpt-x'' (PyStr ''hello'') returning False None =
     \<lparr>trace = [Create \<lparr>req_model = ''gpt-x'',
         req_messages = PyList [PyDict [(''role'', PyStr ''user''), (''content'', PyStr ''hello'')]],
         req_stream = False, req_options = []\<rparr>,
        Print ''General exception encountered while running the query: Invalid parameter''],
      raised = None\<rparr>"
proof -
  let ?req = "\<lparr>req_model = ''gpt-x'',
      req_messages = PyList [PyDict [(''role'', PyStr ''user''), (''content'', PyStr ''hello'')]],
      req_stream = False, req_options = []\<rparr>"
  let ?e1 = "Exn RateLimitError ''Rate limit reached''"
  let ?e2 = "Exn BadRequestError ''Invalid parameter''"
  have h1: "create_kwargs ''gpt-x'' (conversation_of (PyStr ''hello'')) False (default_options None)
              = Inr ?req"
    by (simp add: create_kwargs_def clashing_def conversation_of_def default_options_def)
  have a: "answering (Inl ?e1) ?req = Inl ?e1" by (simp add: answering_def)
  have b: "answering (Inl ?e2) ?req = Inl ?e2" by (simp add: answering_def)
  have c1: "isinstance ?e1 OpenAIError \<and> \<not> isinstance ?e1 BadRequestError"
    by (simp add: isinstance_def api_error_bases_def)
  have c2: "isinstance ?e2 BadRequestError \<and> \<not> re_search context_length_pattern (exc_str ?e2)"
    by code_simp
  from api_error_message
         [where cb = returning, of "''gpt-x''" "PyStr ''hello''" False None ?req "answering (Inl ?e1)" ?e1, OF h1 a] c1
       api_error_message
         [where cb = returning, of "''gpt-x''" "PyStr ''hello''" False None ?req "answering (Inl ?e2)" ?e2, OF h1 b] c2
  show ?thesis by simp
qed

text \<open>
  C2 as written fails for the API error class \<^verbatim>\<open>BadRequestError\<close>: with a text that
  does not match the context-length pattern the general-exception message is printed.
\<close>

theorem bad_request_general_message_counterexample:
  "isinstance (Exn BadRequestError ''Invalid parameter'') OpenAIError \<and>
   \<not> re_search context_length_pattern ''Invalid parameter'' \<and>
   printed (trace (query_model (answering (Inl (Exn BadRequestError ''Invalid parameter'')))
      ''gpt-x'' (PyStr ''hello'') returning False None)) =
     [Print ''General exception encountered while running the query: Invalid parameter''] \<and>
   printed (trace (query_model (answering (Inl (Exn BadRequestError ''Invalid parameter'')))
      ''gpt-x'' (PyStr ''hello'') returning False None)) \<noteq>
     [Print ''gpt-x could not complete the request: Invalid parameter'']"
  by code_simp

text \<open>
  C3, as amended. For every non-streaming dispatch whose SDK call returns a completion with
  at least one choice, the callback is invoked exactly once, and only through the host's
  gate: the one callback event is \<^verbatim>\<open>execute_sync\<close> of the callback with the first
  choice's message content as its \<^verbatim>\<open>response\<close> argument, under \<^verbatim>\<open>MFF_WRITE\<close>;
  nothing is printed and nothing is raised.
\<close>

theorem completion_callback_marshaled:
  assumes "create_kwargs model (conversation_of query) False (default_options opts) = Inr req"
    and "client req = Inr (ChatCompletion (c # cs))"
  shows "query_model client model query cb False opts =
           \<lparr>trace = [Create req, ExecuteSync [(''response'', content (message c))] MFF_WRITE],
            raised = None\<rparr> \<and>
         callbacks (trace (query_model client model query cb False opts)) =
           [ExecuteSync [(''response'', content (message c))] MFF_WRITE]"
proof -
  from assms have "query_model client model query cb False opts =
           \<lparr>trace = [Create req, ExecuteSync [(''response'', content (message c))] MFF_WRITE],
            raised = None\<rparr>"
    by (rule query_model_completion)
  then show ?thesis by (simp add: callbacks_def)
qed

theorem completion_callback_marshaled_witness:
  "callbacks (trace (query_model
      (answering (Inr (ChatCompletion [\<lparr>message = \<lparr>content = PyStr ''Hello there''\<rparr>\<rparr>])))
      ''gpt-x'' (PyStr ''hello'') returning False None)) =
   [ExecuteSync [(''response'', PyStr ''Hello there'')] MFF_WRITE]"
proof -
  let ?req = "\<lparr>req_model = ''gpt-x'',
      req_messages = PyList [PyDict [(''role'', PyStr ''user''), (''content'', PyStr ''hello'')]],
      req_stream = False, req_options = []\<rparr>"
  let ?c = "\<lparr>message = \<lparr>content = PyStr ''Hello there''\<rparr>\<rparr>"
  have h1: "create_kwargs ''gpt-x'' (conversation_of (PyStr ''hello'')) False (default_options None)
              = Inr ?req"
    by (simp add: create_kwargs_def clashing_def conversation_of_def default_options_def)
  have h2: "answering (Inr (ChatCompletion [?c])) ?req = Inr (ChatCompletion (?c # []))"
    by (simp add: answering_def)
  from completion_callback_marshaled
    [where cb = returning, of "''gpt-x''" "PyStr ''hello''" None ?req "answering (Inr (ChatCompletion [?c]))" ?c "[]",
     OF h1 h2]
  show ?thesis by (simp add: callbacks_def)
qed

text \<open>
  C3 as written fails on a completion without choices: the SDK call has succeeded and the
  callback is not invoked.
\<close>

theorem completion_no_choice_counterexample:
  "callbacks (trace (query_model (answering (Inr (ChatCompletion [])))
      ''gpt-x'' (PyStr ''hello'') returning False None)) = [] \<and>
   printed (trace (query_model (answering (Inr (ChatCompletion [])))
      ''gpt-x'' (PyStr ''hello'') returning False None)) =
   [Print ''General exception encountered while running the query: list index out of range'']"
  by code_simp

text \<open>
  C4, as amended. No dispatch raises an \<^verbatim>\<open>Exception\<close> to its caller. When the
  \<^verbatim>\<open>create\<close> call itself raises an \<^verbatim>\<open>Exception\<close>, the callback is never invoked and
  the only effect after the call is the printed line of the failure. When the stream raises
  an \<^verbatim>\<open>Exception\<close> during the iteration, after chunks that each carry a choice and
  with a callback that returns from every call, the callback has been invoked once for each
  chunk received before the failure, the line of the failure is printed and nothing is
  raised.
\<close>

theorem sdk_failure_only_printed:
  assumes "create_kwargs model (conversation_of query) stream (default_options opts) = Inr req"
    and "isinstance e Exception"
  shows "(client req = Inl e \<longrightarrow>
            query_model client model query cb stream opts =
              \<lparr>trace = [Create req, Print (failure_message model e)], raised = None\<rparr> \<and>
            callbacks (trace (query_model client model query cb stream opts)) = []) \<and>
         (stream \<and> client req = Inr (Stream chunks (Some e)) \<and>
          list_all (\<lambda>c. choices c \<noteq> []) chunks \<and> (\<forall>a f. cb a f = None) \<longrightarrow>
            raised (query_model client model query cb stream opts) = None \<and>
            printed (trace (query_model client model query cb stream opts)) =
              [Print (failure_message model e)] \<and>
            list_all2 delivered chunks
              (callbacks (trace (query_model client model query cb stream opts)))) \<and>
         (\<forall>x. raised (query_model client' model' query' cb' stream' opts') = Some x \<longrightarrow>
              \<not> isinstance x Exception)"
proof (intro conjI impI allI)
  assume sdk: "client req = Inl e"
  from assms(1) sdk have run: "query_model client model query cb stream opts =
           \<lparr>trace = Create req # fst (except_clauses model e),
            raised = snd (except_clauses model e)\<rparr>"
    by (rule query_model_sdk_raises)
  with except_message [OF assms(2), of model]
  show "query_model client model query cb stream opts =
          \<lparr>trace = [Create req, Print (failure_message model e)], raised = None\<rparr>"
    by simp
  then show "callbacks (trace (query_model client model query cb stream opts)) = []"
    by (simp add: callbacks_def)
next
  assume h: "stream \<and> client req = Inr (Stream chunks (Some e)) \<and>
          list_all (\<lambda>c. choices c \<noteq> []) chunks \<and> (\<forall>a f. cb a f = None)"
  let ?call = "\<lambda>c. Call [chunk_content (hd (choices c)), finish_reason (hd (choices c))]"
  let ?calls = "map ?call chunks"
  from h have st: "stream = True" and sdk: "client req = Inr (Stream chunks (Some e))"
    and ne: "list_all (\<lambda>c. choices c \<noteq> []) chunks" and ret: "\<And>a f. cb a f = None"
    by simp_all
  from assms(1) st have ck:
    "create_kwargs model (conversation_of query) True (default_options opts) = Inr req"
    by simp
  from ck sdk ne ret have "query_model client model query cb True opts =
           (case Some e of
              None \<Rightarrow> \<lparr>trace = Create req # ?calls, raised = None\<rparr>
            | Some e \<Rightarrow> \<lparr>trace = (Create req # ?calls) @ fst (except_clauses model e),
                  raised = snd (except_clauses model e)\<rparr>)"
    by (rule query_model_stream)
  with st except_message [OF assms(2), of model]
  have run: "query_model client model query cb stream opts =
      \<lparr>trace = (Create req # ?calls) @ [Print (failure_message model e)], raised = None\<rparr>"
    by simp
  have pr: "printed (Create req # ?calls) = []"
    by (induction chunks) (simp_all add: printed_def)
  have cb: "callbacks (Create req # ?calls) = ?calls"
    by (induction chunks) (simp_all add: callbacks_def)
  from run show "raised (query_model client model query cb stream opts) = None" by simp
  from run pr show "printed (trace (query_model client model query cb stream opts)) =
              [Print (failure_message model e)]"
    by (simp add: printed_def)
  have "delivered c (?call c)" if "choices c \<noteq> []" for c
    using that
    by (cases "choices c") (auto simp: chunk_content_def split: option.splits pyval.splits)
  with ne have "list_all2 delivered chunks ?calls"
    by (simp add: list_all2_map2 list_all2_same list_all_iff)
  with run cb show "list_all2 delivered chunks
              (callbacks (trace (query_model client model query cb stream opts)))"
    by (simp add: callbacks_def)
next
  fix x
  assume "raised (query_model client' model' query' cb' stream' opts') = Some x"
  then show "\<not> isinstance x Exception" by (rule raised_is_no_exception)
qed

theorem sdk_failure_only_printed_witness:
  "query_model (answering (Inl (Exn APIConnectionError ''Connection error.'')))
      ''gpt-x'' (PyStr ''hello'') returning False None =
     \<lparr>trace = [Create \<lparr>req_model = ''gpt-x'',
         req_messages = PyList [PyDict [(''role'', PyStr ''user''), (''content'', PyStr ''hello'')]],
         req_stream = False, req_options = []\<rparr>,
        Print (failure_message ''gpt-x'' (Exn APIConnectionError ''Connection error.''))],
      raised = None\<rparr> \<and>
   callbacks (trace (query_model (answering (Inl (Exn APIConnectionError ''Connection error.'')))
      ''gpt-x'' (PyStr ''hello'') returning False None)) = [] \<and>
   raised (query_model
      (answering (Inr (Stream
         [\<lparr>choices = [\<lparr>delta = choice_delta (Some ''Hel''), finish_reason = PyNone\<rparr>]\<rparr>]
         (Some (Exn APIConnectionError ''Connection error.'')))))
      ''gpt-x'' (PyStr ''hello'') returning True None) = None \<and>
   printed (trace (query_model
      (answering (Inr (Stream
         [\<lparr>choices = [\<lparr>delta = choice_delta (Some ''Hel''), finish_reason = PyNone\<rparr>]\<rparr>]
         (Some (Exn APIConnectionError ''Connection error.'')))))
      ''gpt-x'' (PyStr ''hello'') returning True None)) =
     [Print (failure_message ''gpt-x'' (Exn APIConnectionError ''Connection error.''))] \<and>
   list_all2 delivered
     [\<lparr>choices = [\<lparr>delta = choice_delta (Some ''Hel''), finish_reason = PyNone\<rparr>]\<rparr>]
     (callbacks (trace (query_model
        (answering (Inr (Stream
           [\<lparr>choices = [\<lparr>delta = choice_delta (Some ''Hel''), finish_reason = PyNone\<rparr>]\<rparr>]
           (Some (Exn APIConnectionError ''Connection error.'')))))
        ''gpt-x'' (PyStr ''hello'') returning True None))) \<and>
   raised (query_model (answering (Inl (Exn KeyboardInterrupt ''interrupted'')))
      ''gpt-x'' (PyStr ''hello'') returning False None) =
     Some (Exn KeyboardInterrupt ''interrupted'') \<and>
   \<not> isinstance (Exn KeyboardInterrupt ''interrupted'') Exception"
proof -
  let ?msgs = "PyList [PyDict [(''role'', PyStr ''user''), (''content'', PyStr ''hello'')]]"
  let ?req1 = "\<lparr>req_model = ''gpt-x'', req_messages = ?msgs, req_stream = False,
                 req_options = []\<rparr>"
  let ?req2 = "\<lparr>req_model = ''gpt-x'', req_messages = ?msgs, req_stream = True,
                 req_options = []\<rparr>"
  let ?e = "Exn APIConnectionError ''Connection error.''"
  let ?k = "Exn KeyboardInterrupt ''interrupted''"
  let ?chunks = "[\<lparr>choices = [\<lparr>delta = choice_delta (Some ''Hel''), finish_reason = PyNone\<rparr>]\<rparr>]"
  let ?down = "answering (Inl ?e)"
  let ?broken = "answering (Inr (Stream ?chunks (Some ?e)))"
  have h1: "create_kwargs ''gpt-x'' (conversation_of (PyStr ''hello'')) False (default_options None)
              = Inr ?req1"
    by (simp add: create_kwargs_def clashing_def conversation_of_def default_options_def)
  have h2: "create_kwargs ''gpt-x'' (conversation_of (PyStr ''hello'')) True (default_options None)
              = Inr ?req2"
    by (simp add: create_kwargs_def clashing_def conversation_of_def default_options_def)
  have ex: "isinstance ?e Exception" by (simp add: isinstance_def api_error_bases_def)
  have a: "?down ?req1 = Inl ?e" by (simp add: answering_def)
  have b: "True \<and> ?broken ?req2 = Inr (Stream ?chunks (Some ?e)) \<and>
           list_all (\<lambda>c. choices c \<noteq> []) ?chunks \<and> (\<forall>a f. returning a f = None)"
    by (simp add: answering_def returning_def)
  have k: "raised (query_model (answering (Inl ?k)) ''gpt-x'' (PyStr ''hello'') returning False None)
             = Some ?k"
    by code_simp
  note first = sdk_failure_only_printed
      [where client = ?down and cb = returning and chunks = "[]"
         and client' = "answering (Inl ?k)" and model' = "''gpt-x''"
         and query' = "PyStr ''hello''" and cb' = returning and stream' = False
         and opts' = None, OF h1 ex]
  note second = sdk_failure_only_printed
      [where client = ?broken and cb = returning and chunks = ?chunks
         and client' = "answering (Inl ?k)" and model' = "''gpt-x''"
         and query' = "PyStr ''hello''" and cb' = returning and stream' = False
         and opts' = None, OF h2 ex]
  from first a k have
    "query_model ?down ''gpt-x'' (PyStr ''hello'') returning False None =
       \<lparr>trace = [Create ?req1, Print (failure_message ''gpt-x'' ?e)], raised = None\<rparr>"
    "callbacks (trace (query_model ?down ''gpt-x'' (PyStr ''hello'') returning False None)) = []"
    "\<not> isinstance ?k Exception"
    by blast+
  moreover from second b have
    "raised (query_model ?broken ''gpt-x'' (PyStr ''hello'') returning True None) = None"
    "printed (trace (query_model ?broken ''gpt-x'' (PyStr ''hello'') returning True None)) =
       [Print (failure_message ''gpt-x'' ?e)]"
    "list_all2 delivered ?chunks
       (callbacks (trace (query_model ?broken ''gpt-x'' (PyStr ''hello'') returning True None)))"
    by blast+
  ultimately show ?thesis using k by blast
qed

text \<open>
  C4 as written fails when the failure comes during the iteration of a stream: the SDK
  raises after the first chunk, the failure is printed and nothing is raised, but the
  callback has been invoked for that chunk.
\<close>

theorem stream_failure_after_callback_counterexample:
  "query_model
      (answering (Inr (Stream
         [\<lparr>choices = [\<lparr>delta = choice_delta (Some ''Hel''), finish_reason = PyNone\<rparr>]\<rparr>]
         (Some (Exn APIConnectionError ''Connection error.'')))))
      ''gpt-x'' (PyStr ''hello'') returning True None =
     \<lparr>trace = [Create \<lparr>req_model = ''gpt-x'',
         req_messages = PyList [PyDict [(''role'', PyStr ''user''), (''content'', PyStr ''hello'')]],
         req_stream = True, req_options = []\<rparr>,
        Call [PyStr ''Hel'', PyNone],
        Print ''gpt-x could not complete the request: Connection error.''],
      raised = None\<rparr> \<and>
   callbacks (trace (query_model
      (answering (Inr (Stream
         [\<lparr>choices = [\<lparr>delta = choice_delta (Some ''Hel''), finish_reason = PyNone\<rparr>]\<rparr>]
         (Some (Exn APIConnectionError ''Connection error.'')))))
      ''gpt-x'' (PyStr ''hello'') returning True None)) \<noteq> []"
  by code_simp

text \<open>
  C5, as amended. For every non-streaming dispatch whose SDK call raises a
  \<^verbatim>\<open>BadRequestError\<close> whose text contains
  \<^verbatim>\<open>maximum context length is N tokens, however you requested M tokens\<close> (\<open>N\<close>, \<open>M\<close>
  numbers), the adapter prints the too-big-to-analyze advisory and not the error text,
  invokes the callback zero times and raises nothing.
\<close>

theorem context_length_advisory:
  assumes "create_kwargs model (conversation_of query) False (default_options opts) = Inr req"
    and "client req = Inl e"
    and "isinstance e BadRequestError"
    and "exc_str e = pre @ context_length_text n m @ post"
    and "is_number n" and "is_number m"
  shows "query_model client model query cb False opts =
           \<lparr>trace = [Create req, Print TOO_BIG], raised = None\<rparr> \<and>
         callbacks (trace (query_model client model query cb False opts)) = []"
proof -
  from assms(4) context_length_found [OF assms(5,6), of pre post]
  have "re_search context_length_pattern (exc_str e)" by simp
  with assms(3) have "except_clauses model e = ([Print TOO_BIG], None)"
    by (rule except_bad_request_too_big)
  moreover from assms(1,2) have "query_model client model query cb False opts =
           \<lparr>trace = Create req # fst (except_clauses model e),
            raised = snd (except_clauses model e)\<rparr>"
    by (rule query_model_sdk_raises)
  ultimately show ?thesis by (simp add: callbacks_def)
qed

theorem context_length_advisory_witness:
  "query_model
     (answering (Inl (Exn BadRequestError
        (''This model has a '' @ context_length_text ''4097'' ''5000'' @ '' (5000 in the messages)''))))
     ''gpt-x'' (PyStr ''hello'') returning False None =
   \<lparr>trace = [Create \<lparr>req_model = ''gpt-x'',
       req_messages = PyList [PyDict [(''role'', PyStr ''user''), (''content'', PyStr ''hello'')]],
       req_stream = False, req_options = []\<rparr>,
      Print TOO_BIG],
    raised = None\<rparr>"
proof -
  let ?req = "\<lparr>req_model = ''gpt-x'',
      req_messages = PyList [PyDict [(''role'', PyStr ''user''), (''content'', PyStr ''hello'')]],
      req_stream = False, req_options = []\<rparr>"
  let ?e = "Exn BadRequestError
        (''This model has a '' @ context_length_text ''4097'' ''5000'' @ '' (5000 in the messages)'')"
  have h1: "create_kwargs ''gpt-x'' (conversation_of (PyStr ''hello'')) False (default_options None)
              = Inr ?req"
    by (simp add: create_kwargs_def clashing_def conversation_of_def default_options_def)
  have h2: "answering (Inl ?e) ?req = Inl ?e" by (simp add: answering_def)
  have h3: "isinstance ?e BadRequestError" by (simp add: isinstance_def)
  have h4: "exc_str ?e =
      ''This model has a '' @ context_length_text ''4097'' ''5000'' @ '' (5000 in the messages)''"
    by simp
  have h5: "is_number ''4097''" by (simp add: is_number_def is_digit_def)
  have h6: "is_number ''5000''" by (simp add: is_number_def is_digit_def)
  from context_length_advisory
    [where cb = returning, of "''gpt-x''" "PyStr ''hello''" None ?req "answering (Inl ?e)" ?e
        "''This model has a ''" "''4097''" "''5000''" "'' (5000 in the messages)''",
     OF h1 h2 h3 h4 h5 h6]
  show ?thesis by blast
qed

text \<open>
  C5 as written fails for an error of another class whose text matches the pattern: the
  raw error text is printed, not the advisory.
\<close>

theorem context_length_other_class_counterexample:
  "re_search context_length_pattern
     ''maximum context length is 4097 tokens, however you requested 5000 tokens'' \<and>
   printed (trace (query_model
      (answering (Inl (Exn InternalServerError
         ''maximum context length is 4097 tokens, however you requested 5000 tokens'')))
      ''gpt-x'' (PyStr ''hello'') returning False None)) =
   [Print (''gpt-x could not complete the request: '' @
      ''maximum context length is 4097 tokens, however you requested 5000 tokens'')] \<and>
   printed (trace (query_model
      (answering (Inl (Exn InternalServerError
         ''maximum context length is 4097 tokens, however you requested 5000 tokens'')))
      ''gpt-x'' (PyStr ''hello'') returning False None)) \<noteq> [Print TOO_BIG]"
  by code_simp

text \<open>
  C8. A plain string prompt and the one-message list with that prompt as the user's content
  give the same run, so the same outbound request; when no option collides with an explicit
  keyword, that request is sent with the wrapped message list, and for a query that is not
  of type \<^verbatim>\<open>str\<close> the request is sent with the caller's value unchanged as its
  messages, next to the model name, the stream flag and the options.
\<close>

theorem string_prompt_same_request:
  "query_model client model (PyStr s) cb stream opts =
     query_model client model
       (PyList [PyDict [(''role'', PyStr ''user''), (''content'', PyStr s)]]) cb stream opts \<and>
   (clashing (default_options opts) = [] \<longrightarrow>
      outbound (trace (query_model client model (PyStr s) cb stream opts)) =
        [\<lparr>req_model = model,
          req_messages = PyList [PyDict [(''role'', PyStr ''user''), (''content'', PyStr s)]],
          req_stream = stream, req_options = default_options opts\<rparr>]) \<and>
   (py_type query \<noteq> T_str \<and> clashing (default_options opts) = [] \<longrightarrow>
      outbound (trace (query_model client model query cb stream opts)) =
        [\<lparr>req_model = model, req_messages = query, req_stream = stream,
          req_options = default_options opts\<rparr>])"
proof (intro conjI impI)
  show "query_model client model (PyStr s) cb stream opts =
     query_model client model
       (PyList [PyDict [(''role'', PyStr ''user''), (''content'', PyStr s)]]) cb stream opts"
    by (simp add: query_model_def try_block_def conversation_of_def)
next
  assume "clashing (default_options opts) = []"
  from outbound_query_model [OF this, of client model "PyStr s" cb stream]
  show "outbound (trace (query_model client model (PyStr s) cb stream opts)) =
        [\<lparr>req_model = model,
          req_messages = PyList [PyDict [(''role'', PyStr ''user''), (''content'', PyStr s)]],
          req_stream = stream, req_options = default_options opts\<rparr>]"
    by (simp add: conversation_of_def)
next
  assume "py_type query \<noteq> T_str \<and> clashing (default_options opts) = []"
  then have a: "py_type query \<noteq> T_str" and b: "clashing (default_options opts) = []"
    by simp_all
  from outbound_query_model [OF b, of client model query cb stream] a
  show "outbound (trace (query_model client model query cb stream opts)) =
        [\<lparr>req_model = model, req_messages = query, req_stream = stream,
          req_options = default_options opts\<rparr>]"
    by (simp add: conversation_of_def)
qed

theorem string_prompt_same_request_witness:
  "outbound (trace (query_model (answering (Inl (Exn APIConnectionError ''Connection error.'')))
      ''gpt-x'' (PyStr ''hello'') returning False
      (Some [(''response_format'', PyDict [(''type'', PyStr ''json_object'')])]))) =
     [\<lparr>req_model = ''gpt-x'',
       req_messages = PyList [PyDict [(''role'', PyStr ''user''), (''content'', PyStr ''hello'')]],
       req_stream = False,
       req_options = [(''response_format'', PyDict [(''type'', PyStr ''json_object'')])]\<rparr>] \<and>
   outbound (trace (query_model (answering (Inl (Exn APIConnectionError ''Connection error.'')))
      ''gpt-x''
      (PyList [PyDict [(''role'', PyStr ''system''), (''content'', PyStr ''be brief'')],
               PyDict [(''role'', PyStr ''user''), (''content'', PyStr ''hello'')]]) returning False
      (Some [(''response_format'', PyDict [(''type'', PyStr ''json_object'')])]))) =
     [\<lparr>req_model = ''gpt-x'',
       req_messages =
         PyList [PyDict [(''role'', PyStr ''system''), (''content'', PyStr ''be brief'')],
                 PyDict [(''role'', PyStr ''user''), (''content'', PyStr ''hello'')]],
       req_stream = False,
       req_options = [(''response_format'', PyDict [(''type'', PyStr ''json_object'')])]\<rparr>]"
proof -
  let ?opts = "Some [(''response_format'', PyDict [(''type'', PyStr ''json_object'')])]"
  let ?q = "PyList [PyDict [(''role'', PyStr ''system''), (''content'', PyStr ''be brief'')],
               PyDict [(''role'', PyStr ''user''), (''content'', PyStr ''hello'')]]"
  have a: "clashing (default_options ?opts) = []"
    by (simp add: clashing_def default_options_def)
  have b: "py_type ?q \<noteq> T_str" by simp
  have c: "default_options ?opts = [(''response_format'', PyDict [(''type'', PyStr ''json_object'')])]"
    by (simp add: default_options_def)
  from a b
    string_prompt_same_request
      [of "answering (Inl (Exn APIConnectionError ''Connection error.''))" "''gpt-x''"
          "''hello''" returning False ?opts ?q]
  show ?thesis unfolding c by blast
qed

text \<open>
  C9. The wrapping applies only to a value whose type is exactly \<^verbatim>\<open>str\<close>: an instance
  of a proper subclass of \<^verbatim>\<open>str\<close> is not wrapped, and when no option collides with an
  explicit keyword it is passed to the SDK call unchanged as the messages argument.
\<close>

theorem str_subclass_not_wrapped:
  assumes "isinstance_str query" and "py_type query \<noteq> T_str"
  shows "conversation_of query = query \<and>
         (clashing (default_options opts) = [] \<longrightarrow>
            outbound (trace (query_model client model query cb stream opts)) =
              [\<lparr>req_model = model, req_messages = query, req_stream = stream,
                req_options = default_options opts\<rparr>])"
  using assms(2) outbound_query_model [of opts client model query cb stream]
  by (simp add: conversation_of_def)

theorem str_subclass_not_wrapped_witness:
  "isinstance_str (PyStrSub ''Prompt'' ''hello'') \<and>
   py_type (PyStrSub ''Prompt'' ''hello'') \<noteq> T_str \<and>
   conversation_of (PyStrSub ''Prompt'' ''hello'') = PyStrSub ''Prompt'' ''hello'' \<and>
   outbound (trace (query_model (answering (Inl (Exn APIConnectionError ''Connection error.'')))
      ''gpt-x'' (PyStrSub ''Prompt'' ''hello'') returning False None)) =
     [\<lparr>req_model = ''gpt-x'', req_messages = PyStrSub ''Prompt'' ''hello'', req_stream = False,
       req_options = []\<rparr>]"
proof -
  have a: "isinstance_str (PyStrSub ''Prompt'' ''hello'')" by simp
  have b: "py_type (PyStrSub ''Prompt'' ''hello'') \<noteq> T_str" by simp
  have c: "clashing (default_options None) = []" by (simp add: clashing_def default_options_def)
  have d: "default_options None = []" by (simp add: default_options_def)
  from a b c
    str_subclass_not_wrapped
      [OF a b, of None "answering (Inl (Exn APIConnectionError ''Connection error.''))"
         "''gpt-x''" returning False]
  show ?thesis unfolding d by blast
qed

end
